theory Spec2Isabelle
  imports Main "HOL-Library.Sublist"
begin

section \<open>safe-wipe: a guarded recursive delete\<close>

text \<open>
  A shallow embedding of \<^verbatim>\<open>src/index.js\<close> (the \<^verbatim>\<open>safeWipe\<close> module, lines 1 to 210).
  Every promise of the source is a pair: how it settles (fulfilled with a value, rejected
  with an error, or never settled) and the list of effects performed on the way, in order.
  The collaborators that are not code of the module (\<^verbatim>\<open>path.resolve\<close>, \<^verbatim>\<open>fs.readdir\<close>,
  \<^verbatim>\<open>rimraf\<close>, the line typed at a \<^verbatim>\<open>readline\<close> interface) are fields of a \<open>world\<close>.
\<close>

subsection \<open>Data\<close>

text \<open>Stream handles: the three process streams and any handle a caller may supply.\<close>

datatype stream = ProcessStdin | ProcessStdout | ProcessStderr | Handle nat

text \<open>A JavaScript \<^verbatim>\<open>Error\<close>: its \<^verbatim>\<open>message\<close> and its \<^verbatim>\<open>code\<close> property, if it has one.\<close>

datatype js_error = Error (message: string) (code: "string option")

text \<open>The observable effects of a call, in the order they happen.\<close>

datatype event =
    Readdir string                \<comment> \<open>\<^verbatim>\<open>readdir(dir)\<close>\<close>
  | Question stream stream string \<comment> \<open>\<^verbatim>\<open>rl.question(q)\<close> on an interface over \<^verbatim>\<open>(input, output)\<close>:
                                     \<^verbatim>\<open>q\<close> is written to \<^verbatim>\<open>output\<close>, a line is awaited on \<^verbatim>\<open>input\<close>\<close>
  | Close                         \<comment> \<open>\<^verbatim>\<open>rl.close()\<close>\<close>
  | Rimraf string                 \<comment> \<open>\<^verbatim>\<open>rimraf(dir)\<close>\<close>
  | Write stream string           \<comment> \<open>\<^verbatim>\<open>stream.write(text)\<close>\<close>

datatype 'a settlement = Fulfilled 'a | Rejected js_error | Pending

type_synonym 'a promise = "'a settlement \<times> event list"

record world =
  path_resolve :: "string \<Rightarrow> string"
  fs_readdir :: "string \<Rightarrow> js_error + string list"
  rimraf_ext :: "string \<Rightarrow> js_error option"
  rl_answer :: "stream \<Rightarrow> string option"

text \<open>
  \<open>path_resolve\<close> is \<^verbatim>\<open>path.resolve\<close> in the process's working directory;
  \<open>fs_readdir\<close> is what listing a directory gives (\<open>Inl\<close> an error);
  \<open>rimraf_ext\<close> is the external recursive delete (\<open>None\<close>: it succeeded);
  \<open>rl_answer s\<close> is the line that arrives on the input stream \<open>s\<close> (\<open>None\<close>: no line ever
  arrives, and the callback of \<^verbatim>\<open>rl.question\<close> is never called).
\<close>

record message_bundle =
  contained :: string
  confirm :: string
  abort :: string

text \<open>
  The resolved configuration. \<open>parent = None\<close> is \<^verbatim>\<open>null\<close>. \<open>others\<close> are the further own
  properties of the caller's object: \<^verbatim>\<open>extend\<close> copies every key, and the module reads
  only the nine keys named here.
\<close>

record config =
  stdin :: stream
  stdout :: stream
  stderr :: stream
  ignore :: "string list"
  parent :: "string option"
  interactive :: bool
  force :: bool
  silent :: bool
  messages :: message_bundle
  others :: "(string \<times> stream) list"

text \<open>
  What a caller passes: an object in which any key may be missing (\<open>None\<close>: the key is
  absent or \<^verbatim>\<open>undefined\<close>; for \<open>o_parent\<close> also \<^verbatim>\<open>null\<close>, the default). Values have the
  documented types.
\<close>

record message_options =
  o_contained :: "string option"
  o_confirm :: "string option"
  o_abort :: "string option"

record options =
  o_stdin :: "stream option"
  o_stdout :: "stream option"
  o_stderr :: "stream option"
  o_ignore :: "string list option"
  o_parent :: "string option"
  o_interactive :: "bool option"
  o_force :: "bool option"
  o_silent :: "bool option"
  o_messages :: "message_options option"
  o_others :: "(string \<times> stream) list"

text \<open>The first argument of the exported function: a directory, or an object (\<open>Obj None\<close> is \<^verbatim>\<open>null\<close>).\<close>

datatype first_arg = Dir string | Obj "options option"

text \<open>What a JavaScript call hands back to its caller: \<^verbatim>\<open>undefined\<close>, or a promise.\<close>

datatype returned = Undefined | Promise "unit settlement"

subsection \<open>Promises\<close>

definition p_resolve :: "'a \<Rightarrow> 'a promise" where
  "p_resolve v = (Fulfilled v, [])"

definition p_reject :: "js_error \<Rightarrow> 'a promise" where
  "p_reject e = (Rejected e, [])"

text \<open>\<^verbatim>\<open>p.then(f)\<close>: \<open>f\<close> runs only once \<open>p\<close> is fulfilled; a rejection passes through.\<close>

definition p_then :: "'a promise \<Rightarrow> ('a \<Rightarrow> 'b promise) \<Rightarrow> 'b promise" where
  "p_then p f =
     (case p of
        (Fulfilled v, t) \<Rightarrow> (case f v of (s, t') \<Rightarrow> (s, t @ t'))
      | (Rejected e, t) \<Rightarrow> (Rejected e, t)
      | (Pending, t) \<Rightarrow> (Pending, t))"

text \<open>\<^verbatim>\<open>p.catch(h)\<close>: \<open>h\<close> runs only once \<open>p\<close> is rejected; a value passes through.\<close>

definition p_catch :: "'a promise \<Rightarrow> (js_error \<Rightarrow> 'a promise) \<Rightarrow> 'a promise" where
  "p_catch p h =
     (case p of
        (Fulfilled v, t) \<Rightarrow> (Fulfilled v, t)
      | (Rejected e, t) \<Rightarrow> (case h e of (s, t') \<Rightarrow> (s, t @ t'))
      | (Pending, t) \<Rightarrow> (Pending, t))"

subsection \<open>Library functions the module calls\<close>

text \<open>\<^verbatim>\<open>Array.prototype.indexOf\<close>: the first index of \<open>x\<close>, or \<open>-1\<close>.\<close>

fun indexOf :: "'a list \<Rightarrow> 'a \<Rightarrow> int" where
  "indexOf [] x = -1"
| "indexOf (y # ys) x =
     (if y = x then 0 else (let r = indexOf ys x in if r = -1 then -1 else r + 1))"

text \<open>\<^verbatim>\<open>String.prototype.indexOf\<close>: the first position where \<open>pat\<close> occurs in \<open>s\<close>, or \<open>-1\<close>.\<close>

fun str_indexOf :: "string \<Rightarrow> string \<Rightarrow> int" where
  "str_indexOf [] pat = (if pat = [] then 0 else -1)"
| "str_indexOf (c # cs) pat =
     (if prefix pat (c # cs) then 0
      else (let r = str_indexOf cs pat in if r = -1 then -1 else r + 1))"

text \<open>
  The regular expression \<^verbatim>\<open>/^y(es)?/i\<close>. \<open>canonicalize\<close> is the case folding of the \<^verbatim>\<open>i\<close>
  flag on the letters of the pattern; \<open>match_lit\<close> matches a literal at the front of the
  input and gives the rest; \<open>match_opt\<close> is the greedy \<^verbatim>\<open>(...)?\<close>; \<open>regex_test\<close> is
  \<^verbatim>\<open>.test(answer)\<close>: anchored at the start by \<^verbatim>\<open>^\<close>, not anchored at the end.
\<close>

definition canonicalize :: "char \<Rightarrow> char" where
  "canonicalize c =
     (let n = (of_char c :: nat) in if 97 \<le> n \<and> n \<le> 122 then char_of (n - 32) else c)"

fun match_lit :: "string \<Rightarrow> string \<Rightarrow> string option" where
  "match_lit [] s = Some s"
| "match_lit (p # ps) [] = None"
| "match_lit (p # ps) (c # cs) =
     (if canonicalize p = canonicalize c then match_lit ps cs else None)"

definition match_opt :: "string \<Rightarrow> string \<Rightarrow> string option" where
  "match_opt lit s = (case match_lit lit s of Some r \<Rightarrow> Some r | None \<Rightarrow> Some s)"

definition regex_test :: "string \<Rightarrow> bool" where
  "regex_test answer =
     (case match_lit ''y'' answer of
        None \<Rightarrow> False
      | Some r \<Rightarrow> (case match_opt ''es'' r of None \<Rightarrow> False | Some _ \<Rightarrow> True))"

text \<open>The promisified collaborators.\<close>

definition readdir :: "world \<Rightarrow> string \<Rightarrow> string list promise" where
  "readdir w dir =
     (case fs_readdir w dir of
        Inl e \<Rightarrow> (Rejected e, [Readdir dir])
      | Inr files \<Rightarrow> (Fulfilled files, [Readdir dir]))"

definition rimraf :: "world \<Rightarrow> string \<Rightarrow> unit promise" where
  "rimraf w dir =
     (case rimraf_ext w dir of
        Some e \<Rightarrow> (Rejected e, [Rimraf dir])
      | None \<Rightarrow> (Fulfilled (), [Rimraf dir]))"

subsection \<open>The module\<close>

definition nl :: string where
  "nl = [CHR 0x0A]"

definition default_messages :: message_bundle where
  "default_messages = \<lparr>
     contained = ''Source folder seems to be contained by destination folder.'' @ nl
       @ ''Let'' @ [CHR 0x27] @ ''s not wipe everything out.'',
     confirm = ''[?] Destination folder will be wiped out. Are you sure you want to proceed? [y/N] '',
     abort = ''Destination folder not empty, aborting'' \<rparr>"

text \<open>
  \<^verbatim>\<open>extend(target, source)\<close> without the deep flag: every key of the source whose value
  is not \<^verbatim>\<open>undefined\<close> overwrites the target's. \<open>pick\<close> is that rule for one key.
\<close>

definition pick :: "'a \<Rightarrow> 'a option \<Rightarrow> 'a" where
  "pick d v = (case v of None \<Rightarrow> d | Some x \<Rightarrow> x)"

definition extend_messages :: "message_bundle \<Rightarrow> message_options option \<Rightarrow> message_bundle" where
  "extend_messages d m =
     (case m of
        None \<Rightarrow> d
      | Some mo \<Rightarrow> \<lparr> contained = pick (contained d) (o_contained mo),
                     confirm = pick (confirm d) (o_confirm mo),
                     abort = pick (abort d) (o_abort mo) \<rparr>)"

definition no_options :: options where
  "no_options = \<lparr> o_stdin = None, o_stdout = None, o_stderr = None, o_ignore = None,
     o_parent = None, o_interactive = None, o_force = None, o_silent = None,
     o_messages = None, o_others = [] \<rparr>"

definition defaults :: "options option \<Rightarrow> config" where
  "defaults config =
     (let c = (case config of None \<Rightarrow> no_options | Some c \<Rightarrow> c) in
      \<lparr> stdin = pick ProcessStdin (o_stdin c),
        stdout = pick ProcessStdout (o_stdout c),
        stderr = pick ProcessStderr (o_stderr c),
        ignore = pick [''.DS_Store'', ''Thumbs.db''] (o_ignore c),
        parent = o_parent c,
        interactive = pick True (o_interactive c),
        force = pick False (o_force c),
        silent = pick False (o_silent c),
        messages = extend_messages default_messages (o_messages c),
        others = o_others c \<rparr>)"

definition createError :: "string \<Rightarrow> string \<Rightarrow> js_error" where
  "createError msg cd = Error msg (Some cd)"

definition isParent :: "world \<Rightarrow> string \<Rightarrow> string \<Rightarrow> bool" where
  "isParent w dir parent' = (str_indexOf (path_resolve w dir) (path_resolve w parent') = 0)"

text \<open>
  \<^verbatim>\<open>checkParent\<close> passes \<^verbatim>\<open>config.parent\<close> as the first argument of \<^verbatim>\<open>isParent\<close> and
  \<^verbatim>\<open>dir\<close> as the second. With \<^verbatim>\<open>config.parent\<close> \<^verbatim>\<open>null\<close>, \<^verbatim>\<open>path.resolve\<close> throws a
  \<^verbatim>\<open>TypeError\<close> inside the executor, which rejects the promise; \<open>safeWipeRaw\<close> never
  calls it so.
\<close>

definition checkParent :: "world \<Rightarrow> string \<Rightarrow> config \<Rightarrow> unit promise" where
  "checkParent w dir config =
     (case parent config of
        None \<Rightarrow> p_reject (Error ''The paths[0] argument must be of type string. Received null''
                   (Some ''ERR_INVALID_ARG_TYPE''))
      | Some p \<Rightarrow>
          if isParent w p dir
          then p_reject (createError (contained (messages config)) ''CONTAINED'')
          else p_resolve ())"

definition prompt :: "world \<Rightarrow> string \<Rightarrow> config \<Rightarrow> string promise" where
  "prompt w question config =
     (case rl_answer w (stdin config) of
        None \<Rightarrow> (Pending, [Question (stdin config) (stdout config) question])
      | Some answer \<Rightarrow>
          (Fulfilled answer, [Question (stdin config) (stdout config) question, Close]))"

definition isEmpty :: "world \<Rightarrow> string \<Rightarrow> config \<Rightarrow> bool promise" where
  "isEmpty w dir config =
     p_catch
       (p_then (readdir w dir)
          (\<lambda>files.
             (let files' = filter (\<lambda>file. indexOf (ignore config) file = -1) files
              in p_resolve (length files' = 0))))
       (\<lambda>e. if code e = Some ''ENOENT'' then p_resolve True else p_reject e)"

definition checkEmpty :: "world \<Rightarrow> string \<Rightarrow> config \<Rightarrow> unit promise" where
  "checkEmpty w dir config =
     p_then (isEmpty w dir config)
       (\<lambda>empty.
          if empty then p_resolve ()
          else if force config then p_resolve ()
          else if \<not> interactive config
            then p_reject (createError (abort (messages config)) ''ABORT'')
          else p_then (prompt w (confirm (messages config)) config)
            (\<lambda>answer.
               (let proceed = regex_test answer
                in if \<not> proceed
                   then p_reject (createError (abort (messages config)) ''ABORT'')
                   else p_resolve ())))"

text \<open>\<^verbatim>\<open>if (config.parent)\<close>: \<^verbatim>\<open>null\<close> and the empty string are falsy.\<close>

definition truthy :: "string option \<Rightarrow> bool" where
  "truthy v = (case v of None \<Rightarrow> False | Some s \<Rightarrow> s \<noteq> [])"

definition safeWipeRaw :: "world \<Rightarrow> string \<Rightarrow> config \<Rightarrow> unit promise" where
  "safeWipeRaw w dir config =
     (let p0 = p_resolve ();
          p1 = (if truthy (parent config)
                then p_then p0 (\<lambda>_. checkParent w dir config) else p0);
          p2 = p_then p1 (\<lambda>_. checkEmpty w dir config);
          p3 = p_then p2 (\<lambda>_. rimraf w dir);
          p4 = (if \<not> silent config
                then p_catch p3 (\<lambda>e. (Rejected e, [Write (stderr config) (message e @ nl)]))
                else p3)
      in p4)"

text \<open>
  \<^verbatim>\<open>safeWipeNew\<close> returns \<^verbatim>\<open>function (dir) { safeWipeRaw(dir, config) }\<close>: a function of
  one parameter (a second argument is accepted and dropped, as JavaScript does) whose body
  has no \<^verbatim>\<open>return\<close>. Calling it runs \<open>safeWipeRaw\<close> for its effects and hands back
  \<^verbatim>\<open>undefined\<close>.
\<close>

definition safeWipeNew :: "options option \<Rightarrow> (world \<Rightarrow> string \<Rightarrow> options option \<Rightarrow> returned \<times> event list)" where
  "safeWipeNew config =
     (let config' = defaults config
      in (\<lambda>w dir inner. (case safeWipeRaw w dir config' of (s, t) \<Rightarrow> (Undefined, t))))"

datatype export_result =
    Bound "world \<Rightarrow> string \<Rightarrow> options option \<Rightarrow> returned \<times> event list"
  | Direct "returned \<times> event list"

definition safeWipe :: "world \<Rightarrow> first_arg \<Rightarrow> options option \<Rightarrow> export_result" where
  "safeWipe w dir config =
     (case dir of
        Obj c \<Rightarrow> Bound (safeWipeNew c)
      | Dir d \<Rightarrow> (case safeWipeRaw w d (defaults config) of (s, t) \<Rightarrow> Direct (Promise s, t)))"

subsection \<open>Reading a trace\<close>

fun is_readdir :: "event \<Rightarrow> bool" where
  "is_readdir (Readdir d) = True"
| "is_readdir ev = False"

fun is_question :: "event \<Rightarrow> bool" where
  "is_question (Question i out q) = True"
| "is_question ev = False"

fun is_rimraf :: "event \<Rightarrow> bool" where
  "is_rimraf (Rimraf d) = True"
| "is_rimraf ev = False"

fun is_write :: "event \<Rightarrow> bool" where
  "is_write (Write s x) = True"
| "is_write ev = False"

text \<open>The directory was listed; the confirmation prompt was written; the delete was invoked.\<close>

definition listed :: "event list \<Rightarrow> bool" where
  "listed t = (filter is_readdir t \<noteq> [])"

definition prompted :: "event list \<Rightarrow> bool" where
  "prompted t = (filter is_question t \<noteq> [])"

definition deleted :: "event list \<Rightarrow> bool" where
  "deleted t = (filter is_rimraf t \<noteq> [])"

text \<open>
  The containment check is run (\<^verbatim>\<open>config.parent\<close> is truthy) and does not let the call
  through.
\<close>

definition containment_rejects :: "world \<Rightarrow> string \<Rightarrow> config \<Rightarrow> bool" where
  "containment_rejects w dir config =
     (truthy (parent config) \<and> fst (checkParent w dir config) \<noteq> Fulfilled ())"

text \<open>The failure written to the error stream, unless the call is silent.\<close>

definition echo :: "config \<Rightarrow> js_error \<Rightarrow> event list" where
  "echo config e = (if silent config then [] else [Write (stderr config) (message e @ nl)])"

subsection \<open>A small world for concrete runs\<close>

text \<open>
  The process runs in \<^verbatim>\<open>/srv/app\<close>. \<^verbatim>\<open>path.resolve\<close> gives the working directory for
  the empty string and for \<^verbatim>\<open>.\<close>, and leaves an absolute, normalised path as it is; no
  other path is used below. \<^verbatim>\<open>/srv/app/build\<close> holds one file, \<^verbatim>\<open>/srv/app/cache\<close> a file and a
  noise file, \<^verbatim>\<open>/srv/app/noise\<close> only noise files, \<^verbatim>\<open>/srv\<close> holds \<^verbatim>\<open>app\<close>,
  \<^verbatim>\<open>/srv/app/locked\<close> cannot be read, and nothing else exists. The delete succeeds
  in \<open>demo_world\<close> and is refused in \<open>refusing_world\<close>. The lines typed on each stream
  are the parameter.
\<close>

definition demo_resolve :: "string \<Rightarrow> string" where
  "demo_resolve p = (if p = [] \<or> p = ''.'' then ''/srv/app'' else p)"

definition demo_readdir :: "string \<Rightarrow> js_error + string list" where
  "demo_readdir d =
     (if d = ''/srv/app/build'' then Inr [''a.txt'']
      else if d = ''/srv/app/cache'' then Inr [''b.txt'', ''.DS_Store'']
      else if d = ''/srv/app/noise'' then Inr [''.DS_Store'', ''Thumbs.db'']
      else if d = ''/srv'' then Inr [''app'']
      else if d = ''/srv/app/locked''
        then Inl (Error ''EACCES: permission denied, scandir'' (Some ''EACCES''))
      else Inl (Error ''ENOENT: no such file or directory, scandir'' (Some ''ENOENT'')))"

definition demo_world :: "(stream \<Rightarrow> string option) \<Rightarrow> world" where
  "demo_world answers = \<lparr> path_resolve = demo_resolve, fs_readdir = demo_readdir,
     rimraf_ext = (\<lambda>d. None), rl_answer = answers \<rparr>"

text \<open>The operator types one line on the process's standard input.\<close>

definition types :: "string \<Rightarrow> stream \<Rightarrow> string option" where
  "types line s = (if s = ProcessStdin then Some line else None)"

text \<open>Nobody types anything; a line typed on one stream, on top of what is typed elsewhere.\<close>

definition nobody :: "stream \<Rightarrow> string option" where
  "nobody s = None"

definition typed_on :: "stream \<Rightarrow> string \<Rightarrow> (stream \<Rightarrow> string option) \<Rightarrow> stream \<Rightarrow> string option" where
  "typed_on s line rest = rest(s := Some line)"

text \<open>The same world, where the external delete is refused.\<close>

definition refusing_world :: "(stream \<Rightarrow> string option) \<Rightarrow> world" where
  "refusing_world answers = \<lparr> path_resolve = demo_resolve, fs_readdir = demo_readdir,
     rimraf_ext = (\<lambda>d. Some (Error ''EACCES: permission denied, rmdir'' (Some ''EACCES''))),
     rl_answer = answers \<rparr>"

section \<open>Properties\<close>

subsection \<open>The library functions\<close>

lemma indexOf_ge: "indexOf xs x \<ge> -1"
  by (induction xs) (auto simp: Let_def)

lemma indexOf_absent: "indexOf xs x = -1 \<longleftrightarrow> x \<notin> set xs"
proof (induction xs)
  case Nil
  then show ?case by simp
next
  case (Cons y ys)
  have "indexOf ys x \<ge> -1" by (rule indexOf_ge)
  with Cons show ?case by (auto simp: Let_def)
qed

lemma str_indexOf_ge: "str_indexOf s pat \<ge> -1"
  by (induction s) (auto simp: Let_def)

lemma str_indexOf_prefix: "str_indexOf s pat = 0 \<longleftrightarrow> prefix pat s"
proof (cases s)
  case Nil
  then show ?thesis by auto
next
  case (Cons c cs)
  have "str_indexOf cs pat \<ge> -1" by (rule str_indexOf_ge)
  with Cons show ?thesis by (auto simp: Let_def)
qed

lemma isParent_prefix: "isParent w p dir \<longleftrightarrow> prefix (path_resolve w dir) (path_resolve w p)"
  by (simp add: isParent_def str_indexOf_prefix)

lemma containment_rejects_iff:
  "containment_rejects w dir config \<longleftrightarrow>
     (\<exists>p. parent config = Some p \<and> p \<noteq> [] \<and> prefix (path_resolve w dir) (path_resolve w p))"
  by (auto simp add: containment_rejects_def truthy_def checkParent_def isParent_prefix
        p_reject_def p_resolve_def split: option.splits)

lemma kept_files: "filter (\<lambda>file. indexOf ig file = -1) files = filter (\<lambda>file. file \<notin> set ig) files"
  by (simp add: indexOf_absent)

lemma isEmpty_listing:
  "fs_readdir w dir = Inr files \<Longrightarrow>
   isEmpty w dir config = (Fulfilled (filter (\<lambda>file. file \<notin> set (ignore config)) files = []), [Readdir dir])"
  by (simp add: isEmpty_def readdir_def p_then_def p_catch_def p_resolve_def kept_files)

lemma isEmpty_missing:
  "fs_readdir w dir = Inl e \<Longrightarrow> code e = Some ''ENOENT'' \<Longrightarrow>
   isEmpty w dir config = (Fulfilled True, [Readdir dir])"
  by (simp add: isEmpty_def readdir_def p_then_def p_catch_def p_resolve_def)

lemma isEmpty_failure:
  "fs_readdir w dir = Inl e \<Longrightarrow> code e \<noteq> Some ''ENOENT'' \<Longrightarrow>
   isEmpty w dir config = (Rejected e, [Readdir dir])"
  by (simp add: isEmpty_def readdir_def p_then_def p_catch_def p_reject_def)

lemma checkEmpty_empty:
  "isEmpty w dir config = (Fulfilled True, t) \<Longrightarrow> checkEmpty w dir config = (Fulfilled (), t)"
  by (simp add: checkEmpty_def p_then_def p_resolve_def)

lemma checkEmpty_force:
  "isEmpty w dir config = (Fulfilled b, t) \<Longrightarrow> force config \<Longrightarrow>
   checkEmpty w dir config = (Fulfilled (), t)"
  by (simp add: checkEmpty_def p_then_def p_resolve_def)

lemma checkEmpty_failure:
  "isEmpty w dir config = (Rejected e, t) \<Longrightarrow> checkEmpty w dir config = (Rejected e, t)"
  by (simp add: checkEmpty_def p_then_def)

lemma checkEmpty_noninteractive:
  "isEmpty w dir config = (Fulfilled False, t) \<Longrightarrow> \<not> force config \<Longrightarrow> \<not> interactive config \<Longrightarrow>
   checkEmpty w dir config = (Rejected (createError (abort (messages config)) ''ABORT''), t)"
  by (simp add: checkEmpty_def p_then_def p_reject_def)

lemma checkEmpty_answer:
  "isEmpty w dir config = (Fulfilled False, t) \<Longrightarrow> \<not> force config \<Longrightarrow> interactive config \<Longrightarrow>
   rl_answer w (stdin config) = Some a \<Longrightarrow>
   checkEmpty w dir config =
     (if regex_test a then Fulfilled ()
      else Rejected (createError (abort (messages config)) ''ABORT''),
      t @ [Question (stdin config) (stdout config) (confirm (messages config)), Close])"
  by (simp add: checkEmpty_def p_then_def p_reject_def p_resolve_def prompt_def Let_def)

lemma checkEmpty_unanswered:
  "isEmpty w dir config = (Fulfilled False, t) \<Longrightarrow> \<not> force config \<Longrightarrow> interactive config \<Longrightarrow>
   rl_answer w (stdin config) = None \<Longrightarrow>
   checkEmpty w dir config =
     (Pending, t @ [Question (stdin config) (stdout config) (confirm (messages config))])"
  by (simp add: checkEmpty_def p_then_def prompt_def)

lemma checkParent_passes:
  "fst (checkParent w dir config) = Fulfilled () \<Longrightarrow> checkParent w dir config = (Fulfilled (), [])"
  by (auto simp add: checkParent_def p_reject_def p_resolve_def split: option.splits if_splits)

lemma safeWipeRaw_contained:
  "containment_rejects w dir config \<Longrightarrow>
   safeWipeRaw w dir config =
     (Rejected (createError (contained (messages config)) ''CONTAINED''),
      echo config (createError (contained (messages config)) ''CONTAINED''))"
  by (auto simp add: containment_rejects_def safeWipeRaw_def checkParent_def truthy_def echo_def
        p_then_def p_catch_def p_resolve_def p_reject_def Let_def split: option.splits)

lemma safeWipeRaw_gate_rejected:
  "\<not> containment_rejects w dir config \<Longrightarrow> checkEmpty w dir config = (Rejected e, t) \<Longrightarrow>
   safeWipeRaw w dir config = (Rejected e, t @ echo config e)"
  by (auto simp add: containment_rejects_def safeWipeRaw_def echo_def checkParent_passes
        p_then_def p_catch_def p_resolve_def Let_def)

lemma safeWipeRaw_gate_pending:
  "\<not> containment_rejects w dir config \<Longrightarrow> checkEmpty w dir config = (Pending, t) \<Longrightarrow>
   safeWipeRaw w dir config = (Pending, t)"
  by (auto simp add: containment_rejects_def safeWipeRaw_def echo_def checkParent_passes
        p_then_def p_catch_def p_resolve_def Let_def)

lemma safeWipeRaw_gate_passed:
  "\<not> containment_rejects w dir config \<Longrightarrow> checkEmpty w dir config = (Fulfilled (), t) \<Longrightarrow>
   safeWipeRaw w dir config =
     (case rimraf_ext w dir of
        None \<Rightarrow> (Fulfilled (), t @ [Rimraf dir])
      | Some e \<Rightarrow> (Rejected e, t @ [Rimraf dir] @ echo config e))"
  by (auto simp add: containment_rejects_def safeWipeRaw_def echo_def rimraf_def checkParent_passes
        p_then_def p_catch_def p_resolve_def Let_def split: option.splits)


lemma canonicalize_Y: "canonicalize c = CHR ''Y'' \<longleftrightarrow> c = CHR ''y'' \<or> c = CHR ''Y''"
proof -
  define n where "n = (of_char c :: nat)"
  have lt: "n < 256" by (simp add: n_def)
  have y: "c = CHR ''y'' \<longleftrightarrow> n = 121"
  proof -
    have "c = CHR ''y'' \<longleftrightarrow> (of_char c :: nat) = of_char CHR ''y''"
      by (simp only: of_char_eq_iff)
    then show ?thesis by (simp add: n_def)
  qed
  have Y: "c = CHR ''Y'' \<longleftrightarrow> n = 89"
  proof -
    have "c = CHR ''Y'' \<longleftrightarrow> (of_char c :: nat) = of_char CHR ''Y''"
      by (simp only: of_char_eq_iff)
    then show ?thesis by (simp add: n_def)
  qed
  have "canonicalize c = CHR ''Y'' \<longleftrightarrow> (of_char (canonicalize c) :: nat) = of_char CHR ''Y''"
    by (simp only: of_char_eq_iff)
  also have "\<dots> \<longleftrightarrow> (of_char (canonicalize c) :: nat) = 89"
    by simp
  also have "\<dots> \<longleftrightarrow> n = 121 \<or> n = 89"
    using lt by (auto simp add: canonicalize_def Let_def n_def [symmetric])
  finally show ?thesis using y Y by simp
qed

lemma canonicalize_y: "canonicalize CHR ''y'' = CHR ''Y''"
  using canonicalize_Y [of "CHR ''y''"] by simp

lemma regex_test_Cons: "regex_test (c # cs) \<longleftrightarrow> c = CHR ''y'' \<or> c = CHR ''Y''"
proof -
  have "regex_test (c # cs) \<longleftrightarrow> canonicalize c = CHR ''Y''"
    by (auto simp add: regex_test_def match_opt_def canonicalize_y split: option.splits)
  then show ?thesis by (simp only: canonicalize_Y)
qed

lemma regex_test_Nil: "\<not> regex_test []"
  by (simp add: regex_test_def)

lemma safeWipe_Dir:
  "safeWipeRaw w D (defaults copt) = (s, t) \<Longrightarrow> safeWipe w (Dir D) copt = Direct (Promise s, t)"
  by (simp add: safeWipe_def)

lemma no_parent_no_rejection: "parent config = None \<Longrightarrow> \<not> containment_rejects w dir config"
  by (simp add: containment_rejects_def truthy_def)

lemma echo_quiet: "\<not> listed (echo config e) \<and> \<not> prompted (echo config e) \<and> \<not> deleted (echo config e)"
  by (simp add: echo_def listed_def prompted_def deleted_def)

subsection \<open>Traces\<close>

lemma listed_simps:
  "listed [] = False"
  "listed (ev # t) = (is_readdir ev \<or> listed t)"
  "listed (t @ u) = (listed t \<or> listed u)"
  by (simp_all add: listed_def)

lemma prompted_simps:
  "prompted [] = False"
  "prompted (ev # t) = (is_question ev \<or> prompted t)"
  "prompted (t @ u) = (prompted t \<or> prompted u)"
  by (simp_all add: prompted_def)

lemma deleted_simps:
  "deleted [] = False"
  "deleted (ev # t) = (is_rimraf ev \<or> deleted t)"
  "deleted (t @ u) = (deleted t \<or> deleted u)"
  by (simp_all add: deleted_def)

lemma question_count_simps:
  "filter is_question (t @ u) = filter is_question t @ filter is_question u"
  "filter is_question (echo cfg e) = []"
  by (simp_all add: echo_def)

subsection \<open>The call, stage by stage\<close>

lemma safeWipe_gate_passed:
  assumes "\<not> containment_rejects w D (defaults copt)"
    and "checkEmpty w D (defaults copt) = (Fulfilled (), t)"
  shows "safeWipe w (Dir D) copt =
     Direct (Promise (case rimraf_ext w D of None \<Rightarrow> Fulfilled () | Some e \<Rightarrow> Rejected e),
             t @ [Rimraf D] @ (case rimraf_ext w D of None \<Rightarrow> [] | Some e \<Rightarrow> echo (defaults copt) e))"
  using safeWipeRaw_gate_passed [OF assms]
  by (auto simp add: safeWipe_def split: option.splits)

text \<open>What a call does once the prompt is reached and a line arrives.\<close>

lemma safeWipe_answered:
  assumes "fs_readdir w D = Inr files"
    and "filter (\<lambda>file. file \<notin> set (ignore (defaults copt))) files \<noteq> []"
    and "\<not> force (defaults copt)" and "interactive (defaults copt)"
    and "\<not> containment_rejects w D (defaults copt)"
    and "rl_answer w (stdin (defaults copt)) = Some a"
  shows "safeWipe w (Dir D) copt =
     (if regex_test a
      then Direct (Promise (case rimraf_ext w D of None \<Rightarrow> Fulfilled () | Some e \<Rightarrow> Rejected e),
             [Readdir D, Question (stdin (defaults copt)) (stdout (defaults copt))
                (confirm (messages (defaults copt))), Close, Rimraf D]
             @ (case rimraf_ext w D of None \<Rightarrow> [] | Some e \<Rightarrow> echo (defaults copt) e))
      else Direct (Promise (Rejected (createError (abort (messages (defaults copt))) ''ABORT'')),
             [Readdir D, Question (stdin (defaults copt)) (stdout (defaults copt))
                (confirm (messages (defaults copt))), Close]
             @ echo (defaults copt) (createError (abort (messages (defaults copt))) ''ABORT'')))"
proof -
  have i: "isEmpty w D (defaults copt) = (Fulfilled False, [Readdir D])"
    using assms(1,2) by (simp add: isEmpty_listing)
  note c = checkEmpty_answer [OF i assms(3,4,6)]
  show ?thesis
  proof (cases "regex_test a")
    case True
    with c have "checkEmpty w D (defaults copt) =
        (Fulfilled (), [Readdir D, Question (stdin (defaults copt)) (stdout (defaults copt))
                (confirm (messages (defaults copt))), Close])"
      by simp
    from safeWipe_gate_passed [OF assms(5) this] True show ?thesis by simp
  next
    case False
    with c have "checkEmpty w D (defaults copt) =
        (Rejected (createError (abort (messages (defaults copt))) ''ABORT''),
         [Readdir D, Question (stdin (defaults copt)) (stdout (defaults copt))
                (confirm (messages (defaults copt))), Close])"
      by simp
    from safeWipeRaw_gate_rejected [OF assms(5) this] False show ?thesis
      by (simp add: safeWipe_Dir)
  qed
qed

subsection \<open>What holds of every effect\<close>

text \<open>A property of every event carries through the promise combinators.\<close>

lemma p_then_all:
  assumes "list_all P (snd p)" and "\<And>v. list_all P (snd (f v))"
  shows "list_all P (snd (p_then p f))"
proof (cases p)
  case (Pair s t)
  show ?thesis
  proof (cases s)
    case (Fulfilled v)
    obtain s' t' where f: "f v = (s', t')" by (cases "f v")
    with assms(2) [of v] have "list_all P t'" by simp
    with assms(1) Pair Fulfilled f show ?thesis by (simp add: p_then_def)
  next
    case (Rejected e)
    with assms(1) Pair show ?thesis by (simp add: p_then_def)
  next
    case Pending
    with assms(1) Pair show ?thesis by (simp add: p_then_def)
  qed
qed

lemma p_catch_all:
  assumes "list_all P (snd p)" and "\<And>e. list_all P (snd (h e))"
  shows "list_all P (snd (p_catch p h))"
proof (cases p)
  case (Pair s t)
  show ?thesis
  proof (cases s)
    case (Fulfilled v)
    with assms(1) Pair show ?thesis by (simp add: p_catch_def)
  next
    case (Rejected e)
    obtain s' t' where h: "h e = (s', t')" by (cases "h e")
    with assms(2) [of e] have "list_all P t'" by simp
    with assms(1) Pair Rejected h show ?thesis by (simp add: p_catch_def)
  next
    case Pending
    with assms(1) Pair show ?thesis by (simp add: p_catch_def)
  qed
qed

lemma checkParent_all: "list_all P (snd (checkParent w dir config))"
  by (simp add: checkParent_def p_reject_def p_resolve_def split: option.splits)

lemma isEmpty_all:
  assumes "P (Readdir dir)"
  shows "list_all P (snd (isEmpty w dir config))"
  unfolding isEmpty_def
  by (intro p_catch_all p_then_all)
     (simp_all add: assms readdir_def p_resolve_def p_reject_def Let_def split: sum.splits)

lemma prompt_all:
  assumes "P (Question (stdin config) (stdout config) q)" and "P Close"
  shows "list_all P (snd (prompt w q config))"
  using assms by (simp add: prompt_def split: option.splits)

lemma checkEmpty_all:
  assumes "P (Readdir dir)"
    and "P (Question (stdin config) (stdout config) (confirm (messages config)))" and "P Close"
  shows "list_all P (snd (checkEmpty w dir config))"
  unfolding checkEmpty_def
  by (intro p_then_all isEmpty_all assms(1))
     (auto simp add: p_resolve_def p_reject_def Let_def intro!: p_then_all prompt_all assms(2,3))

lemma rimraf_all:
  assumes "P (Rimraf dir)"
  shows "list_all P (snd (rimraf w dir))"
  using assms by (simp add: rimraf_def split: option.splits)

lemma safeWipeRaw_all:
  assumes "P (Readdir dir)"
    and "P (Question (stdin config) (stdout config) (confirm (messages config)))" and "P Close"
    and "P (Rimraf dir)"
    and "\<And>x. \<not> silent config \<Longrightarrow> P (Write (stderr config) x)"
  shows "list_all P (snd (safeWipeRaw w dir config))"
proof -
  have p0: "list_all P (snd (p_resolve () :: unit promise))"
    by (simp add: p_resolve_def)
  have p1: "list_all P (snd (if truthy (parent config)
                then p_then (p_resolve ()) (\<lambda>_. checkParent w dir config) else p_resolve ()))"
    using p0 by (simp add: p_then_all checkParent_all)
  have p2: "list_all P (snd (p_then (if truthy (parent config)
                then p_then (p_resolve ()) (\<lambda>_. checkParent w dir config) else p_resolve ())
              (\<lambda>_. checkEmpty w dir config)))"
    using p1 by (rule p_then_all) (simp add: checkEmpty_all assms(1,2,3))
  have p3: "list_all P (snd (p_then (p_then (if truthy (parent config)
                then p_then (p_resolve ()) (\<lambda>_. checkParent w dir config) else p_resolve ())
              (\<lambda>_. checkEmpty w dir config)) (\<lambda>_. rimraf w dir)))"
    using p2 by (rule p_then_all) (simp add: rimraf_all assms(4))
  show ?thesis
  proof (cases "silent config")
    case True
    with p3 show ?thesis by (simp add: safeWipeRaw_def Let_def)
  next
    case False
    have "list_all P (snd (p_catch (p_then (p_then (if truthy (parent config)
                then p_then (p_resolve ()) (\<lambda>_. checkParent w dir config) else p_resolve ())
              (\<lambda>_. checkEmpty w dir config)) (\<lambda>_. rimraf w dir))
            (\<lambda>e. (Rejected e, [Write (stderr config) (message e @ nl)]))))"
      using p3 by (rule p_catch_all) (simp add: assms(5) False)
    with False show ?thesis by (simp add: safeWipeRaw_def Let_def)
  qed
qed

text \<open>The \<^verbatim>\<open>silent\<close> flag decides only whether the last handler is attached.\<close>

lemma checkParent_silent: "checkParent w dir (config\<lparr>silent := b\<rparr>) = checkParent w dir config"
  by (simp add: checkParent_def split: option.splits)

lemma isEmpty_silent: "isEmpty w dir (config\<lparr>silent := b\<rparr>) = isEmpty w dir config"
  by (simp add: isEmpty_def)

lemma prompt_silent: "prompt w q (config\<lparr>silent := b\<rparr>) = prompt w q config"
  by (simp add: prompt_def split: option.splits)

lemma checkEmpty_silent: "checkEmpty w dir (config\<lparr>silent := b\<rparr>) = checkEmpty w dir config"
  by (simp add: checkEmpty_def isEmpty_silent prompt_silent Let_def cong: if_cong)

lemma safeWipeRaw_silent:
  "safeWipeRaw w dir config =
     (if silent config then safeWipeRaw w dir (config\<lparr>silent := True\<rparr>)
      else p_catch (safeWipeRaw w dir (config\<lparr>silent := True\<rparr>))
             (\<lambda>e. (Rejected e, [Write (stderr config) (message e @ nl)])))"
  by (simp add: safeWipeRaw_def checkParent_silent checkEmpty_silent Let_def)

lemma safeWipeRaw_quiet:
  "filter is_write (snd (safeWipeRaw w dir (config\<lparr>silent := True\<rparr>))) = []"
proof -
  have "list_all (\<lambda>ev. \<not> is_write ev) (snd (safeWipeRaw w dir (config\<lparr>silent := True\<rparr>)))"
    by (rule safeWipeRaw_all) simp_all
  then show ?thesis
    by (simp add: filter_empty_conv list_all_iff)
qed

subsection \<open>Keys the module does not read\<close>

lemma checkParent_others: "checkParent w dir (config\<lparr>others := xs\<rparr>) = checkParent w dir config"
  by (simp add: checkParent_def split: option.splits)

lemma isEmpty_others: "isEmpty w dir (config\<lparr>others := xs\<rparr>) = isEmpty w dir config"
  by (simp add: isEmpty_def)

lemma prompt_others: "prompt w q (config\<lparr>others := xs\<rparr>) = prompt w q config"
  by (simp add: prompt_def split: option.splits)

lemma checkEmpty_others: "checkEmpty w dir (config\<lparr>others := xs\<rparr>) = checkEmpty w dir config"
  by (simp add: checkEmpty_def isEmpty_others prompt_others Let_def cong: if_cong)

lemma safeWipeRaw_others: "safeWipeRaw w dir (config\<lparr>others := xs\<rparr>) = safeWipeRaw w dir config"
  by (simp add: safeWipeRaw_def checkParent_others checkEmpty_others Let_def)

lemma defaults_others:
  "defaults (Some (opts\<lparr>o_others := xs\<rparr>)) = (defaults (Some opts))\<lparr>others := xs\<rparr>"
  by (simp add: defaults_def)

section \<open>The claims\<close>

subsection \<open>The containment check comes first\<close>

text \<open>
  Claim C1. For every directory \<open>D\<close> and parent path \<open>P\<close> such that the resolved form of
  \<open>P\<close> starts with the resolved form of \<open>D\<close> (\<open>D\<close> equal to \<open>P\<close> included),
  \<^verbatim>\<open>wipe(D, {parent: P})\<close> fails with the code \<^verbatim>\<open>CONTAINED\<close> and the resolved
  \<^verbatim>\<open>contained\<close> message, before any listing, prompt or delete.

  The code misses one parent. \<^verbatim>\<open>isParent\<close> compares resolved paths, but the guard
  \<^verbatim>\<open>if (config.parent)\<close> in front of it tests the raw value, and the empty string is falsy
  although \<^verbatim>\<open>path.resolve('')\<close> is the working directory. The comment above the guard
  ("do not wipe if dir is a parent of supposed config.parent") and the README ("aborted in
  all cases") say what the claim says. In the run below the process is in \<^verbatim>\<open>/srv/app\<close>
  and the directory is \<^verbatim>\<open>/srv\<close>. The parents \<^verbatim>\<open>.\<close> and \<^verbatim>\<open>''\<close> resolve to the same path:
  with \<^verbatim>\<open>.\<close> the call is rejected with \<^verbatim>\<open>CONTAINED\<close> and nothing else happens; with
  \<^verbatim>\<open>''\<close> the check is skipped, the operator answers \<^verbatim>\<open>y\<close>, and \<^verbatim>\<open>/srv\<close> is listed,
  asked about and deleted.
\<close>

theorem empty_parent_not_checked:
  "path_resolve (demo_world (types ''y'')) ''.'' = path_resolve (demo_world (types ''y'')) ''''
   \<and> prefix (path_resolve (demo_world (types ''y'')) ''/srv'')
            (path_resolve (demo_world (types ''y'')) '''')
   \<and> safeWipe (demo_world (types ''y'')) (Dir ''/srv'') (Some (no_options\<lparr>o_parent := Some ''.''\<rparr>)) =
       Direct (Promise (Rejected (Error (contained default_messages) (Some ''CONTAINED''))),
               [Write ProcessStderr (contained default_messages @ nl)])
   \<and> safeWipe (demo_world (types ''y'')) (Dir ''/srv'') (Some (no_options\<lparr>o_parent := Some ''''\<rparr>)) =
       Direct (Promise (Fulfilled ()),
               [Readdir ''/srv'',
                Question ProcessStdin ProcessStdout (confirm default_messages),
                Close,
                Rimraf ''/srv''])"
  by (simp add: demo_world_def demo_resolve_def demo_readdir_def types_def no_options_def
        defaults_def pick_def extend_messages_def safeWipe_def safeWipeRaw_def truthy_def
        checkParent_def isParent_prefix createError_def
        checkEmpty_def isEmpty_def readdir_def rimraf_def prompt_def p_then_def p_catch_def
        p_resolve_def p_reject_def regex_test_Cons Let_def)

text \<open>
  Every other parent is handled as the claim says. For every directory \<open>D\<close> and every
  non-empty parent path \<open>P\<close> whose resolved form starts with the resolved form of \<open>D\<close>, a
  call with \<^verbatim>\<open>parent: P\<close> (whatever the other options) is rejected with the code
  \<^verbatim>\<open>CONTAINED\<close> and the resolved \<^verbatim>\<open>contained\<close> message; the only effect is the message
  on the error stream when the call is not silent: the directory is not listed, nothing is
  asked, nothing is deleted.
\<close>

theorem contained_parent_rejected:
  assumes "cfg = defaults (Some opts)"
    and "o_parent opts = Some P" and "P \<noteq> []"
    and "prefix (path_resolve w D) (path_resolve w P)"
  shows "\<exists>t. safeWipe w (Dir D) (Some opts) =
             Direct (Promise (Rejected (createError (contained (messages cfg)) ''CONTAINED'')), t)
           \<and> t = echo cfg (createError (contained (messages cfg)) ''CONTAINED'')
           \<and> \<not> listed t \<and> \<not> prompted t \<and> \<not> deleted t"
proof -
  have "parent cfg = Some P"
    using assms(1,2) by (simp add: defaults_def)
  with assms(3,4) have "containment_rejects w D cfg"
    by (simp add: containment_rejects_iff)
  then have "safeWipeRaw w D (defaults (Some opts)) =
      (Rejected (createError (contained (messages cfg)) ''CONTAINED''),
       echo cfg (createError (contained (messages cfg)) ''CONTAINED''))"
    using assms(1) by (simp add: safeWipeRaw_contained)
  then show ?thesis
    by (simp add: safeWipe_Dir echo_quiet)
qed

theorem contained_parent_rejected_witness:
  "prefix (path_resolve (demo_world (types ''y'')) ''/srv'')
          (path_resolve (demo_world (types ''y'')) ''/srv/app'')
   \<and> safeWipe (demo_world (types ''y'')) (Dir ''/srv'')
         (Some (no_options\<lparr>o_parent := Some ''/srv/app''\<rparr>)) =
       Direct (Promise (Rejected (Error (contained default_messages) (Some ''CONTAINED''))),
               [Write ProcessStderr (contained default_messages @ nl)])"
  using contained_parent_rejected [of "defaults (Some (no_options\<lparr>o_parent := Some ''/srv/app''\<rparr>))"
      "no_options\<lparr>o_parent := Some ''/srv/app''\<rparr>" "''/srv/app''" "demo_world (types ''y'')" "''/srv''"]
  by (simp add: demo_world_def demo_resolve_def no_options_def defaults_def pick_def
        extend_messages_def echo_def createError_def)

subsection \<open>A session that is not interactive\<close>

text \<open>
  Claim C2. For every non-empty directory \<open>D\<close> (after the ignored names are removed) and
  every configuration with \<^verbatim>\<open>interactive\<close> false and \<^verbatim>\<open>force\<close> false, \<^verbatim>\<open>wipe(D, cfg)\<close>
  fails with the code \<^verbatim>\<open>ABORT\<close> and the resolved \<^verbatim>\<open>abort\<close> message, no prompt is written
  and the delete is never invoked.

  As stated the claim fails for a configuration that also names a parent inside \<open>D\<close>: the
  containment check runs before the directory is listed and its rejection is the one the
  caller gets. Below, \<^verbatim>\<open>/srv\<close> holds \<^verbatim>\<open>app\<close> and the parent is \<^verbatim>\<open>/srv/app\<close>.
\<close>

theorem contained_precedes_abort:
  "fs_readdir (demo_world (types ''y'')) ''/srv'' = Inr [''app'']
   \<and> safeWipe (demo_world (types ''y'')) (Dir ''/srv'')
         (Some (no_options\<lparr>o_parent := Some ''/srv/app'', o_interactive := Some False,
                             o_force := Some False\<rparr>)) =
       Direct (Promise (Rejected (Error (contained default_messages) (Some ''CONTAINED''))),
               [Write ProcessStderr (contained default_messages @ nl)])"
  by (simp add: demo_world_def demo_resolve_def demo_readdir_def no_options_def
        defaults_def pick_def extend_messages_def safeWipe_def safeWipeRaw_def truthy_def
        checkParent_def isParent_prefix createError_def p_then_def p_catch_def
        p_resolve_def p_reject_def Let_def)

text \<open>
  Claim C2, amended. For every non-empty directory \<open>D\<close> (after the ignored names are
  removed) and every configuration with \<^verbatim>\<open>interactive\<close> false and \<^verbatim>\<open>force\<close> false, the
  call fails, no prompt is written and the delete is never invoked; the failure is
  \<^verbatim>\<open>ABORT\<close> with the resolved \<^verbatim>\<open>abort\<close> message, unless the containment check rejects
  first, and then it is \<^verbatim>\<open>CONTAINED\<close> with the resolved \<^verbatim>\<open>contained\<close> message.
\<close>

theorem noninteractive_aborts:
  assumes "cfg = defaults copt"
    and "fs_readdir w D = Inr files"
    and "filter (\<lambda>file. file \<notin> set (ignore cfg)) files \<noteq> []"
    and "\<not> interactive cfg" and "\<not> force cfg"
  shows "\<exists>e t. safeWipe w (Dir D) copt = Direct (Promise (Rejected e), t)
           \<and> \<not> prompted t \<and> \<not> deleted t
           \<and> e = (if containment_rejects w D cfg
                  then createError (contained (messages cfg)) ''CONTAINED''
                  else createError (abort (messages cfg)) ''ABORT'')"
proof (cases "containment_rejects w D cfg")
  case True
  then have "safeWipeRaw w D (defaults copt) =
      (Rejected (createError (contained (messages cfg)) ''CONTAINED''),
       echo cfg (createError (contained (messages cfg)) ''CONTAINED''))"
    using assms(1) by (simp add: safeWipeRaw_contained)
  then show ?thesis
    using True by (simp add: safeWipe_Dir echo_quiet)
next
  case False
  have "isEmpty w D cfg = (Fulfilled False, [Readdir D])"
    using assms(2,3) by (simp add: isEmpty_listing)
  then have "checkEmpty w D cfg =
      (Rejected (createError (abort (messages cfg)) ''ABORT''), [Readdir D])"
    using assms(4,5) by (simp add: checkEmpty_noninteractive)
  with False have "safeWipeRaw w D (defaults copt) =
      (Rejected (createError (abort (messages cfg)) ''ABORT''),
       [Readdir D] @ echo cfg (createError (abort (messages cfg)) ''ABORT''))"
    using assms(1) by (simp add: safeWipeRaw_gate_rejected)
  then show ?thesis
    using False by (simp add: safeWipe_Dir prompted_simps deleted_simps echo_quiet)
qed

theorem noninteractive_aborts_witness:
  "fs_readdir (demo_world (types ''y'')) ''/srv/app/cache'' = Inr [''b.txt'', ''.DS_Store'']
   \<and> filter (\<lambda>file. file \<notin> set [''.DS_Store'', ''Thumbs.db'']) [''b.txt'', ''.DS_Store''] \<noteq> []
   \<and> (\<exists>t. safeWipe (demo_world (types ''y'')) (Dir ''/srv/app/cache'')
         (Some (no_options\<lparr>o_interactive := Some False\<rparr>)) =
       Direct (Promise (Rejected (Error ''Destination folder not empty, aborting'' (Some ''ABORT''))), t)
       \<and> \<not> prompted t \<and> \<not> deleted t)"
  using noninteractive_aborts [of "defaults (Some (no_options\<lparr>o_interactive := Some False\<rparr>))"
      "Some (no_options\<lparr>o_interactive := Some False\<rparr>)" "demo_world (types ''y'')"
      "''/srv/app/cache''" "[''b.txt'', ''.DS_Store'']"]
  by (simp add: demo_world_def demo_readdir_def no_options_def defaults_def pick_def
        extend_messages_def default_messages_def createError_def containment_rejects_def truthy_def)

subsection \<open>The bound function\<close>

text \<open>
  Claim C3. Calling the exported function with a configuration alone gives a reusable
  function of a directory whose call produces the same outcome as a direct call with that
  configuration (bound with \<^verbatim>\<open>{interactive: false}\<close> and called on two non-empty
  directories, it fails with \<^verbatim>\<open>ABORT\<close> both times and never prompts), and a per-call
  configuration is merged over the bound one for that call.

  The code does not do this. The function \<^verbatim>\<open>safeWipeNew\<close> returns has one parameter and no
  \<^verbatim>\<open>return\<close>: every call hands back \<^verbatim>\<open>undefined\<close>, and a second argument is dropped.
  Below, the bound function is called on \<^verbatim>\<open>/srv/app/build\<close> and \<^verbatim>\<open>/srv/app/cache\<close>: the
  checks run inside (listing, then the \<^verbatim>\<open>abort\<close> message on the error stream, no prompt),
  but the caller gets \<^verbatim>\<open>undefined\<close> where the direct call gives a promise rejected with
  \<^verbatim>\<open>ABORT\<close>; and with \<^verbatim>\<open>{force: true}\<close> as second argument nothing is deleted, where the
  direct call with the merged configuration deletes.
\<close>

theorem bound_function_returns_undefined:
  "safeWipe (demo_world nobody) (Obj (Some (no_options\<lparr>o_interactive := Some False\<rparr>))) None =
     Bound (safeWipeNew (Some (no_options\<lparr>o_interactive := Some False\<rparr>)))
   \<and> safeWipeNew (Some (no_options\<lparr>o_interactive := Some False\<rparr>))
       (demo_world nobody) ''/srv/app/build'' None =
     (Undefined, [Readdir ''/srv/app/build'', Write ProcessStderr (abort default_messages @ nl)])
   \<and> safeWipeNew (Some (no_options\<lparr>o_interactive := Some False\<rparr>))
       (demo_world nobody) ''/srv/app/cache'' None =
     (Undefined, [Readdir ''/srv/app/cache'', Write ProcessStderr (abort default_messages @ nl)])
   \<and> safeWipeNew (Some (no_options\<lparr>o_interactive := Some False\<rparr>))
       (demo_world nobody) ''/srv/app/cache'' (Some (no_options\<lparr>o_force := Some True\<rparr>)) =
     (Undefined, [Readdir ''/srv/app/cache'', Write ProcessStderr (abort default_messages @ nl)])
   \<and> safeWipe (demo_world nobody) (Dir ''/srv/app/build'')
       (Some (no_options\<lparr>o_interactive := Some False\<rparr>)) =
     Direct (Promise (Rejected (Error (abort default_messages) (Some ''ABORT''))),
       [Readdir ''/srv/app/build'', Write ProcessStderr (abort default_messages @ nl)])
   \<and> safeWipe (demo_world nobody) (Dir ''/srv/app/cache'')
       (Some (no_options\<lparr>o_interactive := Some False, o_force := Some True\<rparr>)) =
     Direct (Promise (Fulfilled ()), [Readdir ''/srv/app/cache'', Rimraf ''/srv/app/cache''])"
  by (simp add: demo_world_def demo_readdir_def nobody_def no_options_def
        defaults_def pick_def extend_messages_def safeWipe_def safeWipeNew_def safeWipeRaw_def
        truthy_def checkEmpty_def isEmpty_def readdir_def rimraf_def prompt_def p_then_def
        p_catch_def p_resolve_def p_reject_def createError_def Let_def)

subsection \<open>Force\<close>

text \<open>
  Claim C4. For every non-empty directory \<open>D\<close>, \<^verbatim>\<open>wipe(D, {force: true})\<close> proceeds to the
  external delete and succeeds without ever writing the confirmation prompt, whatever the
  \<^verbatim>\<open>interactive\<close> flag.

  As stated the claim fails when the external delete itself fails: the failure is passed
  on to the caller, as every failure of a collaborator is. Below, \<^verbatim>\<open>/srv/app/build\<close>
  holds a file, the delete is refused, and the forced call is rejected with the delete's
  error, after the listing and the delete and without a prompt.
\<close>

theorem forced_delete_may_fail:
  "fs_readdir (refusing_world nobody) ''/srv/app/build'' = Inr [''a.txt'']
   \<and> safeWipe (refusing_world nobody) (Dir ''/srv/app/build'')
        (Some (no_options\<lparr>o_force := Some True\<rparr>)) =
      Direct (Promise (Rejected (Error ''EACCES: permission denied, rmdir'' (Some ''EACCES''))),
        [Readdir ''/srv/app/build'', Rimraf ''/srv/app/build'',
         Write ProcessStderr (''EACCES: permission denied, rmdir'' @ nl)])"
  by (simp add: refusing_world_def demo_readdir_def nobody_def no_options_def
        defaults_def pick_def extend_messages_def safeWipe_def safeWipeRaw_def
        truthy_def checkEmpty_def isEmpty_def readdir_def rimraf_def p_then_def
        p_catch_def p_resolve_def p_reject_def Let_def)

text \<open>
  Claim C4, amended. For every non-empty directory \<open>D\<close>, \<^verbatim>\<open>wipe(D, {force: true})\<close>
  proceeds to the external delete without ever writing the confirmation prompt, whatever
  the \<^verbatim>\<open>interactive\<close> flag, and settles as the delete does: it succeeds when the external
  delete succeeds, and fails with the delete's own error otherwise.

  The theorem takes any options with \<^verbatim>\<open>force: true\<close> and no parent (the \<^verbatim>\<open>interactive\<close>
  key, like every other key, is free) and gives the effects in full: the listing, the
  delete and, when the delete fails and the call is not silent, its message on the error
  stream.
\<close>

theorem force_never_prompts:
  assumes "cfg = defaults (Some opts)"
    and "o_force opts = Some True" and "o_parent opts = None"
    and "fs_readdir w D = Inr files" and "files \<noteq> []"
  shows "\<exists>t. safeWipe w (Dir D) (Some opts) =
             Direct (Promise (case rimraf_ext w D of None \<Rightarrow> Fulfilled () | Some e \<Rightarrow> Rejected e), t)
           \<and> t = [Readdir D, Rimraf D]
                 @ (case rimraf_ext w D of None \<Rightarrow> [] | Some e \<Rightarrow> echo cfg e)
           \<and> \<not> prompted t \<and> deleted t
           \<and> (rimraf_ext w D = None \<longrightarrow>
                safeWipe w (Dir D) (Some opts) =
                  Direct (Promise (Fulfilled ()), [Readdir D, Rimraf D]))"
proof -
  have f: "force cfg" and p: "parent cfg = None"
    using assms(1,2,3) by (simp_all add: defaults_def pick_def)
  have "checkEmpty w D cfg = (Fulfilled (), [Readdir D])"
    using assms(4) f by (simp add: isEmpty_listing checkEmpty_force)
  with p have "safeWipe w (Dir D) (Some opts) =
     Direct (Promise (case rimraf_ext w D of None \<Rightarrow> Fulfilled () | Some e \<Rightarrow> Rejected e),
             [Readdir D] @ [Rimraf D]
               @ (case rimraf_ext w D of None \<Rightarrow> [] | Some e \<Rightarrow> echo (defaults (Some opts)) e))"
    using assms(1) by (simp add: safeWipe_gate_passed no_parent_no_rejection)
  then show ?thesis
    unfolding assms(1)
    by (auto simp add: prompted_simps deleted_simps echo_quiet split: option.splits)
qed

theorem force_never_prompts_witness:
  "fs_readdir (demo_world nobody) ''/srv/app/build'' = Inr [''a.txt'']
   \<and> safeWipe (demo_world nobody) (Dir ''/srv/app/build'')
        (Some (no_options\<lparr>o_force := Some True, o_interactive := Some False\<rparr>)) =
      Direct (Promise (Fulfilled ()), [Readdir ''/srv/app/build'', Rimraf ''/srv/app/build''])
   \<and> safeWipe (demo_world nobody) (Dir ''/srv/app/build'')
        (Some (no_options\<lparr>o_force := Some True\<rparr>)) =
      Direct (Promise (Fulfilled ()), [Readdir ''/srv/app/build'', Rimraf ''/srv/app/build''])"
  using force_never_prompts [of "defaults (Some (no_options\<lparr>o_force := Some True, o_interactive := Some False\<rparr>))"
      "no_options\<lparr>o_force := Some True, o_interactive := Some False\<rparr>" "demo_world nobody"
      "''/srv/app/build''" "[''a.txt'']"]
    force_never_prompts [of "defaults (Some (no_options\<lparr>o_force := Some True\<rparr>))"
      "no_options\<lparr>o_force := Some True\<rparr>" "demo_world nobody"
      "''/srv/app/build''" "[''a.txt'']"]
  by (simp add: demo_world_def demo_readdir_def no_options_def)

subsection \<open>Effectively empty directories\<close>

text \<open>
  Claim C5. For every directory \<open>D\<close> that does not exist, or whose entries all have names
  in the configured ignore list, \<^verbatim>\<open>wipe(D, cfg)\<close> succeeds without ever writing the
  confirmation prompt.

  As stated, for any configuration, the claim fails when the configuration names a parent
  that \<open>D\<close> contains: the containment check rejects before the directory is looked at.
  Below, \<^verbatim>\<open>/srv/app/gone\<close> does not exist and is its own parent.
\<close>

theorem nonexistent_but_contained:
  "fs_readdir (demo_world nobody) ''/srv/app/gone'' =
     Inl (Error ''ENOENT: no such file or directory, scandir'' (Some ''ENOENT''))
   \<and> safeWipe (demo_world nobody) (Dir ''/srv/app/gone'')
        (Some (no_options\<lparr>o_parent := Some ''/srv/app/gone''\<rparr>)) =
      Direct (Promise (Rejected (Error (contained default_messages) (Some ''CONTAINED''))),
              [Write ProcessStderr (contained default_messages @ nl)])"
  by (simp add: demo_world_def demo_resolve_def demo_readdir_def no_options_def
        defaults_def pick_def extend_messages_def safeWipe_def safeWipeRaw_def truthy_def
        checkParent_def isParent_prefix createError_def p_then_def p_catch_def
        p_resolve_def p_reject_def Let_def)

text \<open>
  Claim C5, amended. For every directory \<open>D\<close> that does not exist (the listing fails with
  \<^verbatim>\<open>ENOENT\<close>), or whose entries all have names in the configured ignore list, and every
  configuration whose containment check does not reject (none that names no parent does,
  as in \<^verbatim>\<open>wipe(D, {})\<close> and \<^verbatim>\<open>wipe(D, {ignore})\<close>), the call goes from the listing straight
  to the delete without writing the prompt, and settles as the delete does: it succeeds
  when the external delete succeeds.
\<close>

theorem effectively_empty_never_prompts:
  assumes "cfg = defaults copt"
    and "(\<exists>e. fs_readdir w D = Inl e \<and> code e = Some ''ENOENT'')
         \<or> (\<exists>files. fs_readdir w D = Inr files \<and> set files \<subseteq> set (ignore cfg))"
    and "\<not> containment_rejects w D cfg"
  shows "\<exists>t. safeWipe w (Dir D) copt =
             Direct (Promise (case rimraf_ext w D of None \<Rightarrow> Fulfilled () | Some e \<Rightarrow> Rejected e), t)
           \<and> \<not> prompted t
           \<and> (rimraf_ext w D = None \<longrightarrow> t = [Readdir D, Rimraf D])"
proof -
  have "isEmpty w D cfg = (Fulfilled True, [Readdir D])"
    using assms(2)
  proof
    assume "\<exists>e. fs_readdir w D = Inl e \<and> code e = Some ''ENOENT''"
    then show ?thesis by (auto simp add: isEmpty_missing)
  next
    assume "\<exists>files. fs_readdir w D = Inr files \<and> set files \<subseteq> set (ignore cfg)"
    then obtain files where l: "fs_readdir w D = Inr files" and s: "set files \<subseteq> set (ignore cfg)"
      by blast
    from s have "filter (\<lambda>file. file \<notin> set (ignore cfg)) files = []"
      by (auto simp add: filter_empty_conv)
    with l show ?thesis by (simp add: isEmpty_listing)
  qed
  then have "checkEmpty w D cfg = (Fulfilled (), [Readdir D])"
    by (rule checkEmpty_empty)
  with assms(3) have "safeWipe w (Dir D) copt =
     Direct (Promise (case rimraf_ext w D of None \<Rightarrow> Fulfilled () | Some e \<Rightarrow> Rejected e),
             [Readdir D] @ [Rimraf D]
               @ (case rimraf_ext w D of None \<Rightarrow> [] | Some e \<Rightarrow> echo (defaults copt) e))"
    using assms(1) by (simp add: safeWipe_gate_passed)
  then show ?thesis
    by (auto simp add: prompted_simps echo_quiet split: option.splits)
qed

theorem effectively_empty_never_prompts_witness:
  "fs_readdir (demo_world nobody) ''/srv/app/gone'' =
     Inl (Error ''ENOENT: no such file or directory, scandir'' (Some ''ENOENT''))
   \<and> safeWipe (demo_world nobody) (Dir ''/srv/app/gone'') (Some no_options) =
      Direct (Promise (Fulfilled ()), [Readdir ''/srv/app/gone'', Rimraf ''/srv/app/gone''])
   \<and> fs_readdir (demo_world nobody) ''/srv/app/build'' = Inr [''a.txt'']
   \<and> safeWipe (demo_world nobody) (Dir ''/srv/app/build'')
        (Some (no_options\<lparr>o_ignore := Some [''a.txt'']\<rparr>)) =
      Direct (Promise (Fulfilled ()), [Readdir ''/srv/app/build'', Rimraf ''/srv/app/build''])"
  using effectively_empty_never_prompts [of "defaults (Some no_options)" "Some no_options"
      "demo_world nobody" "''/srv/app/gone''"]
    effectively_empty_never_prompts [of "defaults (Some (no_options\<lparr>o_ignore := Some [''a.txt'']\<rparr>))"
      "Some (no_options\<lparr>o_ignore := Some [''a.txt'']\<rparr>)"
      "demo_world nobody" "''/srv/app/build''"]
  by (simp add: demo_world_def demo_readdir_def no_options_def defaults_def pick_def
        containment_rejects_def truthy_def)

subsection \<open>The answer at the prompt\<close>

text \<open>
  Claim C6. For every answer line read at the confirmation prompt: \<^verbatim>\<open>y\<close>, \<^verbatim>\<open>Y\<close>,
  \<^verbatim>\<open>yes\<close> and \<^verbatim>\<open>YES\<close> are affirmative and the call proceeds to the delete; the empty
  line, \<^verbatim>\<open>n\<close>, \<^verbatim>\<open>no\<close> and \<^verbatim>\<open>maybe\<close> are negative and the call fails with \<^verbatim>\<open>ABORT\<close>; no
  answer leads to a second prompt.

  The prompt is reached when the directory is not empty after the ignored names are
  removed, \<^verbatim>\<open>force\<close> is off, the session is interactive and the containment check has not
  rejected. Then, whatever line arrives, the question is asked exactly once.
\<close>

theorem answer_is_conclusive:
  assumes "cfg = defaults copt"
    and "fs_readdir w D = Inr files"
    and "filter (\<lambda>file. file \<notin> set (ignore cfg)) files \<noteq> []"
    and "\<not> force cfg" and "interactive cfg"
    and "\<not> containment_rejects w D cfg"
    and "rl_answer w (stdin cfg) = Some a"
  shows "\<exists>s t. safeWipe w (Dir D) copt = Direct (Promise s, t)
           \<and> length (filter is_question t) = 1
           \<and> (a \<in> {''y'', ''Y'', ''yes'', ''YES''} \<longrightarrow>
                regex_test a \<and> deleted t
                \<and> s = (case rimraf_ext w D of None \<Rightarrow> Fulfilled () | Some e \<Rightarrow> Rejected e))
           \<and> (a \<in> {'''', ''n'', ''no'', ''maybe''} \<longrightarrow>
                \<not> regex_test a \<and> \<not> deleted t
                \<and> s = Rejected (createError (abort (messages cfg)) ''ABORT''))"
proof -
  note r = safeWipe_answered [of w D files copt a, OF assms(2) assms(3-7) [unfolded assms(1)]]
  have yes: "a \<in> {''y'', ''Y'', ''yes'', ''YES''} \<Longrightarrow> regex_test a"
    by (auto simp add: regex_test_Cons)
  have no: "a \<in> {'''', ''n'', ''no'', ''maybe''} \<Longrightarrow> \<not> regex_test a"
    by (auto simp add: regex_test_Cons regex_test_Nil)
  show ?thesis
  proof (cases "regex_test a")
    case True
    with r no show ?thesis
      unfolding assms(1)
      by (auto simp add: deleted_simps question_count_simps split: option.splits)
  next
    case False
    with r yes show ?thesis
      unfolding assms(1)
      by (auto simp add: deleted_simps question_count_simps echo_quiet)
  qed
qed

theorem answer_is_conclusive_witness:
  "fs_readdir (demo_world (types ''YES'')) ''/srv/app/build'' = Inr [''a.txt'']
   \<and> rl_answer (demo_world (types ''YES'')) ProcessStdin = Some ''YES''
   \<and> (\<exists>t. safeWipe (demo_world (types ''YES'')) (Dir ''/srv/app/build'') None =
            Direct (Promise (Fulfilled ()), t)
          \<and> length (filter is_question t) = 1 \<and> deleted t)
   \<and> (\<exists>t. safeWipe (demo_world (types ''maybe'')) (Dir ''/srv/app/build'') None =
            Direct (Promise (Rejected (Error ''Destination folder not empty, aborting'' (Some ''ABORT''))), t)
          \<and> length (filter is_question t) = 1 \<and> \<not> deleted t)"
  using answer_is_conclusive [of "defaults None" None "demo_world (types ''YES'')"
      "''/srv/app/build''" "[''a.txt'']" "''YES''"]
    answer_is_conclusive [of "defaults None" None "demo_world (types ''maybe'')"
      "''/srv/app/build''" "[''a.txt'']" "''maybe''"]
  by (auto simp add: demo_world_def demo_readdir_def types_def no_options_def defaults_def pick_def
        extend_messages_def default_messages_def createError_def containment_rejects_def truthy_def)

subsection \<open>Failures and the error stream\<close>

text \<open>
  Claim C7. For every failing call: when \<^verbatim>\<open>silent\<close> is false, the failure's message
  followed by a line break is written to the error stream and the same failure is then
  signalled to the caller; when \<^verbatim>\<open>silent\<close> is true, the identical failure is signalled
  with no write to the error stream.

  In the theorem \<open>e\<close> is the failure the caller gets and \<open>t\<close> the effects of the call.
  Not silent: \<open>t\<close> ends with the one write, of \<open>message e\<close> and a line break, to the
  configured error stream, and the same call made silent fails with the same \<open>e\<close> after
  the same effects without that write. Silent: nothing is written, and the same call made
  not silent fails with the same \<open>e\<close>, the write added at the end.
\<close>

theorem failure_echoed_unless_silent:
  assumes "safeWipe w (Dir D) copt = Direct (Promise (Rejected e), t)"
    and "cfg = defaults copt"
  shows "(\<not> silent cfg \<longrightarrow>
            (\<exists>t0. t = t0 @ [Write (stderr cfg) (message e @ nl)]
               \<and> filter is_write t0 = []
               \<and> safeWipeRaw w D (cfg\<lparr>silent := True\<rparr>) = (Rejected e, t0)))
       \<and> (silent cfg \<longrightarrow>
            filter is_write t = []
            \<and> safeWipeRaw w D (cfg\<lparr>silent := False\<rparr>) =
                (Rejected e, t @ [Write (stderr cfg) (message e @ nl)]))"
proof -
  obtain s0 t0 where core: "safeWipeRaw w D (cfg\<lparr>silent := True\<rparr>) = (s0, t0)"
    by (cases "safeWipeRaw w D (cfg\<lparr>silent := True\<rparr>)")
  have quiet: "filter is_write t0 = []"
    using safeWipeRaw_quiet [of w D cfg] core by simp
  have raw: "safeWipeRaw w D cfg = (Rejected e, t)"
    using assms by (auto simp add: safeWipe_def split: prod.splits)
  have loud: "safeWipeRaw w D (cfg\<lparr>silent := False\<rparr>) =
      p_catch (s0, t0) (\<lambda>e. (Rejected e, [Write (stderr cfg) (message e @ nl)]))"
    using safeWipeRaw_silent [of w D "cfg\<lparr>silent := False\<rparr>"] core by simp
  show ?thesis
  proof (cases "silent cfg")
    case True
    with raw core have "s0 = Rejected e" and "t0 = t"
      using safeWipeRaw_silent [of w D cfg] by simp_all
    with True quiet loud show ?thesis by (simp add: p_catch_def)
  next
    case False
    with raw core have "p_catch (s0, t0) (\<lambda>e. (Rejected e, [Write (stderr cfg) (message e @ nl)]))
        = (Rejected e, t)"
      using safeWipeRaw_silent [of w D cfg] by simp
    then have "s0 = Rejected e" and "t = t0 @ [Write (stderr cfg) (message e @ nl)]"
      by (cases s0; simp add: p_catch_def)+
    with False quiet core show ?thesis by simp
  qed
qed

theorem failure_echoed_unless_silent_witness:
  "safeWipe (demo_world (types ''n'')) (Dir ''/srv/app/build'') None =
     Direct (Promise (Rejected (Error (abort default_messages) (Some ''ABORT''))),
       [Readdir ''/srv/app/build'',
        Question ProcessStdin ProcessStdout (confirm default_messages), Close,
        Write ProcessStderr (abort default_messages @ nl)])
   \<and> safeWipeRaw (demo_world (types ''n'')) ''/srv/app/build'' ((defaults None)\<lparr>silent := True\<rparr>) =
     (Rejected (Error (abort default_messages) (Some ''ABORT'')),
       [Readdir ''/srv/app/build'',
        Question ProcessStdin ProcessStdout (confirm default_messages), Close])"
proof -
  have run: "safeWipe (demo_world (types ''n'')) (Dir ''/srv/app/build'') None =
     Direct (Promise (Rejected (Error (abort default_messages) (Some ''ABORT''))),
       [Readdir ''/srv/app/build'',
        Question ProcessStdin ProcessStdout (confirm default_messages), Close,
        Write ProcessStderr (abort default_messages @ nl)])"
    by (simp add: demo_world_def demo_readdir_def types_def no_options_def
        defaults_def pick_def extend_messages_def safeWipe_def safeWipeRaw_def truthy_def
        checkEmpty_def isEmpty_def readdir_def rimraf_def prompt_def p_then_def p_catch_def
        p_resolve_def p_reject_def regex_test_Cons createError_def Let_def)
  from failure_echoed_unless_silent [OF run, of "defaults None"] run show ?thesis
    by (simp add: defaults_def pick_def no_options_def extend_messages_def)
qed

subsection \<open>A listing that fails\<close>

text \<open>
  Claim C8. For every failure of the directory listing other than "not found"
  (permission denied, not a directory, ...), the emptiness check passes that failure on
  to the caller as it is: the directory is not taken for empty, no prompt is written and
  the delete is not invoked.

  \<open>isEmpty\<close> and \<open>checkEmpty\<close> reject with the very error the listing gave, after the
  listing alone; so does the whole call whenever the emptiness check is reached (the
  containment check has not rejected), adding only the message on the error stream when
  the call is not silent.
\<close>

theorem listing_failure_propagates:
  assumes "cfg = defaults copt"
    and "fs_readdir w D = Inl e" and "code e \<noteq> Some ''ENOENT''"
  shows "isEmpty w D cfg = (Rejected e, [Readdir D])
       \<and> checkEmpty w D cfg = (Rejected e, [Readdir D])
       \<and> (\<not> containment_rejects w D cfg \<longrightarrow>
            safeWipe w (Dir D) copt = Direct (Promise (Rejected e), [Readdir D] @ echo cfg e))
       \<and> \<not> prompted ([Readdir D] @ echo cfg e) \<and> \<not> deleted ([Readdir D] @ echo cfg e)"
proof -
  have i: "isEmpty w D cfg = (Rejected e, [Readdir D])"
    using assms(2,3) by (rule isEmpty_failure)
  then have c: "checkEmpty w D cfg = (Rejected e, [Readdir D])"
    by (rule checkEmpty_failure)
  have "\<not> containment_rejects w D cfg \<Longrightarrow>
      safeWipe w (Dir D) copt = Direct (Promise (Rejected e), [Readdir D] @ echo cfg e)"
    using c assms(1) by (simp add: safeWipeRaw_gate_rejected safeWipe_Dir)
  with i c show ?thesis
    by (simp add: prompted_simps deleted_simps echo_quiet)
qed

theorem listing_failure_propagates_witness:
  "fs_readdir (demo_world (types ''y'')) ''/srv/app/locked'' =
      Inl (Error ''EACCES: permission denied, scandir'' (Some ''EACCES''))
   \<and> safeWipe (demo_world (types ''y'')) (Dir ''/srv/app/locked'') None =
      Direct (Promise (Rejected (Error ''EACCES: permission denied, scandir'' (Some ''EACCES''))),
       [Readdir ''/srv/app/locked'',
        Write ProcessStderr (''EACCES: permission denied, scandir'' @ nl)])"
  using listing_failure_propagates [of "defaults None" None "demo_world (types ''y'')"
      "''/srv/app/locked''" "Error ''EACCES: permission denied, scandir'' (Some ''EACCES'')"]
  by (simp add: demo_world_def demo_readdir_def no_options_def defaults_def pick_def
        containment_rejects_def truthy_def echo_def)

subsection \<open>The streams\<close>

text \<open>
  Claim C9. The streams a call uses are the ones supplied under the documented keys: the
  prompt is written to the output handle of the caller's \<^verbatim>\<open>input\<close>/\<^verbatim>\<open>output\<close> pair, the
  answer is read from the caller's \<^verbatim>\<open>input\<close> handle, and failure messages go to the
  caller's \<^verbatim>\<open>error\<close> handle.

  The code, like its README, names the keys \<^verbatim>\<open>stdin\<close>, \<^verbatim>\<open>stdout\<close> and \<^verbatim>\<open>stderr\<close>.
  Handles passed as \<^verbatim>\<open>input\<close>, \<^verbatim>\<open>output\<close> and \<^verbatim>\<open>error\<close> are copied into the
  configuration and never read. Below, the caller's \<^verbatim>\<open>input\<close> handle would answer
  \<^verbatim>\<open>y\<close>; the question goes to the process's standard output, the line \<^verbatim>\<open>n\<close> is read
  from the process's standard input, and the \<^verbatim>\<open>abort\<close> message goes to the process's
  standard error.
\<close>

theorem input_output_error_keys_ignored:
  "safeWipe
     (demo_world (typed_on ProcessStdin ''n'' (typed_on (Handle 1) ''y'' nobody)))
     (Dir ''/srv/app/build'')
     (Some (no_options\<lparr>o_others := [(''input'', Handle 1), (''output'', Handle 2), (''error'', Handle 3)]\<rparr>)) =
   Direct (Promise (Rejected (Error (abort default_messages) (Some ''ABORT''))),
     [Readdir ''/srv/app/build'',
      Question ProcessStdin ProcessStdout (confirm default_messages), Close,
      Write ProcessStderr (abort default_messages @ nl)])"
  by (simp add: demo_world_def demo_readdir_def typed_on_def nobody_def no_options_def
        defaults_def pick_def extend_messages_def safeWipe_def safeWipeRaw_def truthy_def
        checkEmpty_def isEmpty_def readdir_def rimraf_def prompt_def p_then_def p_catch_def
        p_resolve_def p_reject_def regex_test_Cons createError_def Let_def)

text \<open>
  Claim C9, amended. The streams a call uses are the ones supplied under the keys
  \<^verbatim>\<open>stdin\<close>, \<^verbatim>\<open>stdout\<close> and \<^verbatim>\<open>stderr\<close>, each defaulting to the process's own: every
  question is the resolved \<^verbatim>\<open>confirm\<close> message asked on an interface over the \<^verbatim>\<open>stdin\<close>
  and \<^verbatim>\<open>stdout\<close> handles, every write goes to the \<^verbatim>\<open>stderr\<close> handle, and no other key of
  the caller's object changes the call.
\<close>

theorem std_stream_keys_used:
  assumes "safeWipe w (Dir D) (Some opts) = Direct (r, t)"
  shows "(\<forall>i out q. Question i out q \<in> set t \<longrightarrow>
            i = pick ProcessStdin (o_stdin opts) \<and> out = pick ProcessStdout (o_stdout opts)
            \<and> q = confirm (messages (defaults (Some opts))))
       \<and> (\<forall>s x. Write s x \<in> set t \<longrightarrow> s = pick ProcessStderr (o_stderr opts))
       \<and> safeWipe w (Dir D) (Some (opts\<lparr>o_others := xs\<rparr>)) = Direct (r, t)"
proof -
  define cfg where "cfg = defaults (Some opts)"
  define P where "P = (\<lambda>ev. case ev of
      Question i out q \<Rightarrow> i = stdin cfg \<and> out = stdout cfg \<and> q = confirm (messages cfg)
    | Write s x \<Rightarrow> s = stderr cfg
    | _ \<Rightarrow> True)"
  have t: "t = snd (safeWipeRaw w D cfg)"
    using assms by (auto simp add: safeWipe_def cfg_def split: prod.splits)
  have "list_all P (snd (safeWipeRaw w D cfg))"
    by (rule safeWipeRaw_all) (simp_all add: P_def)
  with t have all: "\<forall>ev \<in> set t. P ev"
    by (simp add: list_all_iff)
  have keys: "stdin cfg = pick ProcessStdin (o_stdin opts)"
    "stdout cfg = pick ProcessStdout (o_stdout opts)"
    "stderr cfg = pick ProcessStderr (o_stderr opts)"
    by (simp_all add: cfg_def defaults_def)
  have q: "\<forall>i out q. Question i out q \<in> set t \<longrightarrow>
            i = pick ProcessStdin (o_stdin opts) \<and> out = pick ProcessStdout (o_stdout opts)
            \<and> q = confirm (messages (defaults (Some opts)))"
  proof (intro allI impI)
    fix i out q
    assume "Question i out q \<in> set t"
    with all have "P (Question i out q)" by blast
    then show "i = pick ProcessStdin (o_stdin opts) \<and> out = pick ProcessStdout (o_stdout opts)
            \<and> q = confirm (messages (defaults (Some opts)))"
      using keys by (simp add: P_def cfg_def)
  qed
  have wr: "\<forall>s x. Write s x \<in> set t \<longrightarrow> s = pick ProcessStderr (o_stderr opts)"
  proof (intro allI impI)
    fix s x
    assume "Write s x \<in> set t"
    with all have "P (Write s x)" by blast
    then show "s = pick ProcessStderr (o_stderr opts)"
      using keys by (simp add: P_def)
  qed
  have "safeWipe w (Dir D) (Some (opts\<lparr>o_others := xs\<rparr>)) = safeWipe w (Dir D) (Some opts)"
    by (simp add: safeWipe_def defaults_others safeWipeRaw_others)
  with assms q wr show ?thesis by simp
qed

theorem std_stream_keys_used_witness:
  "safeWipe (demo_world (typed_on (Handle 1) ''n'' nobody)) (Dir ''/srv/app/build'')
     (Some (no_options\<lparr>o_stdin := Some (Handle 1), o_stdout := Some (Handle 2),
                         o_stderr := Some (Handle 3)\<rparr>)) =
   Direct (Promise (Rejected (Error (abort default_messages) (Some ''ABORT''))),
     [Readdir ''/srv/app/build'',
      Question (Handle 1) (Handle 2) (confirm default_messages), Close,
      Write (Handle 3) (abort default_messages @ nl)])
   \<and> safeWipe (demo_world (typed_on (Handle 1) ''n'' nobody)) (Dir ''/srv/app/build'')
     (Some (no_options\<lparr>o_stdin := Some (Handle 1), o_stdout := Some (Handle 2),
                         o_stderr := Some (Handle 3), o_others := [(''input'', Handle 4)]\<rparr>)) =
   Direct (Promise (Rejected (Error (abort default_messages) (Some ''ABORT''))),
     [Readdir ''/srv/app/build'',
      Question (Handle 1) (Handle 2) (confirm default_messages), Close,
      Write (Handle 3) (abort default_messages @ nl)])"
proof -
  have run: "safeWipe (demo_world (typed_on (Handle 1) ''n'' nobody)) (Dir ''/srv/app/build'')
     (Some (no_options\<lparr>o_stdin := Some (Handle 1), o_stdout := Some (Handle 2),
                         o_stderr := Some (Handle 3)\<rparr>)) =
   Direct (Promise (Rejected (Error (abort default_messages) (Some ''ABORT''))),
     [Readdir ''/srv/app/build'',
      Question (Handle 1) (Handle 2) (confirm default_messages), Close,
      Write (Handle 3) (abort default_messages @ nl)])"
    by (simp add: demo_world_def demo_readdir_def typed_on_def nobody_def no_options_def
        defaults_def pick_def extend_messages_def safeWipe_def safeWipeRaw_def truthy_def
        checkEmpty_def isEmpty_def readdir_def rimraf_def prompt_def p_then_def p_catch_def
        p_resolve_def p_reject_def regex_test_Cons createError_def Let_def)
  from std_stream_keys_used [OF run, of "[(''input'', Handle 4)]"] run show ?thesis
    by (simp add: no_options_def)
qed

subsection \<open>Answers that begin with y\<close>

text \<open>
  Claim C10. For every answer whose first character is \<^verbatim>\<open>y\<close> or \<^verbatim>\<open>Y\<close>, whatever
  follows (\<^verbatim>\<open>yep\<close>, \<^verbatim>\<open>ynot\<close>, \<^verbatim>\<open>y123\<close>), the confirmation gate takes the answer for a yes
  and the call proceeds to the external delete: the test \<^verbatim>\<open>/^y(es)?/i\<close> matches a prefix
  and has no end anchor.

  As for C6, the prompt is reached when the directory is not empty after the ignored names
  are removed, \<^verbatim>\<open>force\<close> is off, the session is interactive and the containment check has
  not rejected. With such an answer the test holds; the gate lists the directory, asks the
  resolved \<^verbatim>\<open>confirm\<close> question on the configured streams, closes the interface and lets
  the call through; the call then invokes the delete and settles as the delete does. The
  effects are given in full, in order.
\<close>

theorem y_prefix_is_affirmative:
  assumes "cfg = defaults copt"
    and "fs_readdir w D = Inr files"
    and "filter (\<lambda>file. file \<notin> set (ignore cfg)) files \<noteq> []"
    and "\<not> force cfg" and "interactive cfg"
    and "\<not> containment_rejects w D cfg"
    and "rl_answer w (stdin cfg) = Some (c # rest)"
    and "c = CHR ''y'' \<or> c = CHR ''Y''"
  shows "regex_test (c # rest)
       \<and> checkEmpty w D cfg =
           (Fulfilled (),
            [Readdir D, Question (stdin cfg) (stdout cfg) (confirm (messages cfg)), Close])
       \<and> safeWipe w (Dir D) copt =
           Direct (Promise (case rimraf_ext w D of None \<Rightarrow> Fulfilled () | Some e \<Rightarrow> Rejected e),
             [Readdir D, Question (stdin cfg) (stdout cfg) (confirm (messages cfg)), Close,
              Rimraf D]
             @ (case rimraf_ext w D of None \<Rightarrow> [] | Some e \<Rightarrow> echo cfg e))"
proof -
  have y: "regex_test (c # rest)"
    using assms(8) by (simp add: regex_test_Cons)
  have i: "isEmpty w D cfg = (Fulfilled False, [Readdir D])"
    using assms(2,3) by (simp add: isEmpty_listing)
  have g: "checkEmpty w D cfg =
           (Fulfilled (),
            [Readdir D, Question (stdin cfg) (stdout cfg) (confirm (messages cfg)), Close])"
    using checkEmpty_answer [OF i assms(4,5,7)] y by simp
  note r = safeWipe_answered [of w D files copt "c # rest", OF assms(2) assms(3-7) [unfolded assms(1)]]
  from r y g show ?thesis
    unfolding assms(1) by simp
qed

theorem y_prefix_is_affirmative_witness:
  "rl_answer (demo_world (types ''ynot'')) ProcessStdin = Some ''ynot''
   \<and> regex_test ''ynot''
   \<and> safeWipe (demo_world (types ''ynot'')) (Dir ''/srv/app/build'') None =
       Direct (Promise (Fulfilled ()),
         [Readdir ''/srv/app/build'',
          Question ProcessStdin ProcessStdout (confirm default_messages), Close,
          Rimraf ''/srv/app/build''])"
  using y_prefix_is_affirmative [of "defaults None" None "demo_world (types ''ynot'')"
      "''/srv/app/build''" "[''a.txt'']" "CHR ''y''" "''not''"]
  by (simp add: demo_world_def demo_readdir_def types_def no_options_def defaults_def pick_def
        extend_messages_def containment_rejects_def truthy_def)

end
